theory Spec2Isabelle
  imports Main "HOL-Library.Sublist"
begin

section \<open>The dependency layer packager (src/lib/index.ts)\<close>

text \<open>
  A shallow embedding of the class \<open>DependencyLayerPackager\<close>. Every call that leaves
  the program (a subprocess, the file system, the operator's terminal, the log) is an
  event of a trace; what the outside world answers is read from an environment whose
  answers may depend on everything that has happened so far. An exception of the source
  is the left injection of a sum.
\<close>

subsection \<open>JavaScript string operations\<close>

text \<open>
  Text is a \<^typ>\<open>string\<close>. Case conversion and white space are those of ASCII: the
  letters \<open>A\<close> to \<open>Z\<close> are lowered, and tab, line feed, vertical tab, form feed, carriage
  return and space are stripped by \<open>trim\<close> and by the pattern \<open>\s\<close>.
\<close>

definition newline :: char where
  "newline = CHR 0x0A"

definition isWhiteSpace :: "char \<Rightarrow> bool" where
  "isWhiteSpace c = (c \<in> set [CHR 0x09, CHR 0x0A, CHR 0x0B, CHR 0x0C, CHR 0x0D, CHR 0x20])"

text \<open>\<open>String.prototype.trim\<close>; also \<open>s.replace(/^\s+|\s+$/g, "")\<close>.\<close>

definition js_trim :: "string \<Rightarrow> string" where
  "js_trim s = rev (dropWhile isWhiteSpace (rev (dropWhile isWhiteSpace s)))"

definition lowerChar :: "char \<Rightarrow> char" where
  "lowerChar c =
     (case map_of (zip ''ABCDEFGHIJKLMNOPQRSTUVWXYZ'' ''abcdefghijklmnopqrstuvwxyz'') c of
        Some l \<Rightarrow> l
      | None \<Rightarrow> c)"

text \<open>\<open>String.prototype.toLowerCase\<close>.\<close>

definition js_toLowerCase :: "string \<Rightarrow> string" where
  "js_toLowerCase s = map lowerChar s"

text \<open>\<open>String.prototype.includes\<close>: the needle occurs at some position of the text.\<close>

fun js_includes :: "string \<Rightarrow> string \<Rightarrow> bool" where
  "js_includes [] needle = (needle = [])"
| "js_includes (c # cs) needle = (prefix needle (c # cs) \<or> js_includes cs needle)"

text \<open>\<open>String.prototype.split\<close> at a one-character separator.\<close>

fun js_split :: "char \<Rightarrow> string \<Rightarrow> string list" where
  "js_split sep [] = [[]]"
| "js_split sep (c # cs) =
     (if c = sep then [] # js_split sep cs
      else (case js_split sep cs of
              [] \<Rightarrow> [[c]]
            | x # xs \<Rightarrow> (c # x) # xs))"

subsection \<open>Events, exceptions and the environment\<close>

datatype event =
    Log string                     \<comment> \<open>\<open>this.sls.cli.log\<close>\<close>
  | ConsoleLog "string list"       \<comment> \<open>\<open>console.log\<close> with its arguments\<close>
  | Spawn string "string list"     \<comment> \<open>\<open>ChildProcess.spawnSync(cmd, args)\<close>\<close>
  | Question string                \<comment> \<open>\<open>readLineSync.question(prompt)\<close>\<close>
  | EnsureDir string               \<comment> \<open>\<open>fse.ensureDirSync\<close>\<close>
  | EnsureDirAsync string          \<comment> \<open>\<open>fse.ensureDir\<close>, its promise dropped\<close>
  | Copy string string             \<comment> \<open>\<open>fse.copySync(src, dest)\<close>\<close>
  | Remove string                  \<comment> \<open>\<open>fse.remove\<close>\<close>
  | Zip string string              \<comment> \<open>\<open>zipper.sync.zip(src).compress().save(dest)\<close>\<close>
  | SetArtifact string string      \<comment> \<open>\<open>this.sls.service.functions[key].package.artifact = path\<close>\<close>

datatype exn =
    SlsError string                \<comment> \<open>\<open>new this.sls.classes.Error\<close>\<close>
  | PluginError string             \<comment> \<open>\<open>new Error\<close> thrown by \<open>this.error\<close>\<close>
  | FsError string                 \<comment> \<open>thrown by a synchronous file system call\<close>
  | TypeError string               \<comment> \<open>a property read on \<open>undefined\<close>\<close>

text \<open>The object returned by \<open>spawnSync\<close>.\<close>

record spawn_ret =
  ret_error :: "string option"     \<comment> \<open>\<open>ret.error.message\<close>, when the launch failed\<close>
  ret_status :: "int option"       \<comment> \<open>the exit code\<close>
  ret_stdout :: string
  ret_stderr :: string

record env =
  spawnSync :: "event list \<Rightarrow> string \<Rightarrow> string list \<Rightarrow> spawn_ret"
  question :: "event list \<Rightarrow> string \<Rightarrow> string"
  existsSync :: "event list \<Rightarrow> string \<Rightarrow> bool"
  statSync :: "event list \<Rightarrow> string \<Rightarrow> string + nat"
  fsThrows :: "event list \<Rightarrow> event \<Rightarrow> string option"
  removeRejects :: "event list \<Rightarrow> string \<Rightarrow> string option"
  pathJoin :: "string \<Rightarrow> string \<Rightarrow> string"
  upathNormalize :: "string \<Rightarrow> string"
  cwd :: string
  envHOME :: "string option"

text \<open>
  The state: the events so far, and the events of promise handlers that run once the
  synchronous code has returned.
\<close>

record world =
  trace :: "event list"
  pending :: "event list"

type_synonym 'a prog = "world \<Rightarrow> (exn + 'a) \<times> world"

definition returns :: "'a \<Rightarrow> 'a prog" where
  "returns x w = (Inr x, w)"

definition raise :: "exn \<Rightarrow> 'a prog" where
  "raise e w = (Inl e, w)"

definition seq :: "'a prog \<Rightarrow> ('a \<Rightarrow> 'b prog) \<Rightarrow> 'b prog" where
  "seq m f w = (case m w of (Inl e, w') \<Rightarrow> (Inl e, w') | (Inr x, w') \<Rightarrow> f x w')"

definition emit :: "event \<Rightarrow> unit prog" where
  "emit ev w = (Inr (), w\<lparr>trace := trace w @ [ev]\<rparr>)"

subsection \<open>The class\<close>

definition fullPluginName :: string where
  "fullPluginName = ''dependency_layer_packager''"

definition configPluginName :: string where
  "configPluginName = ''dependencyLayer''"

definition dockerServicePath :: string where
  "dockerServicePath = ''/var/task''"

definition tagged :: "string \<Rightarrow> string" where
  "tagged msg = ''['' @ fullPluginName @ ''] '' @ msg"

definition errorExn :: "string \<Rightarrow> exn" where
  "errorExn msg = PluginError (tagged msg)"

definition error :: "string \<Rightarrow> 'a prog" where
  "error msg = raise (errorExn msg)"

definition log :: "string \<Rightarrow> unit prog" where
  "log msg = emit (Log (tagged msg))"

definition console_log :: "string list \<Rightarrow> unit prog" where
  "console_log args = emit (ConsoleLog args)"

definition defaultPrompt :: string where
  "defaultPrompt = [newline, newline]
     @ ''??? Do you wish to continue deployment with the stated errors? '' @ [newline]"

definition defaultYesText :: string where
  "defaultYesText = ''Continuing Deployment!''"

definition defaultNoText :: string where
  "defaultNoText = ''ABORTING DEPLOYMENT''"

definition requestUserConfirmation :: "env \<Rightarrow> string \<Rightarrow> string \<Rightarrow> string \<Rightarrow> unit prog" where
  "requestUserConfirmation env prompt yesText noText w =
     (let response = question env (trace w) prompt;
          w1 = w\<lparr>trace := trace w @ [Question prompt]\<rparr>
      in if js_includes (js_toLowerCase response) ''y''
         then console_log [yesText] w1
         else seq (console_log [noText]) (\<lambda>_. error ''Aborting'') w1)"

text \<open>The branches of the chain of conditions on \<open>errorText\<close> in \<open>runProcess\<close>.\<close>

datatype classification = IgnoreFalsePositive | IgnoreWarning | Fatal | Ambiguous

definition classify :: "string \<Rightarrow> classification" where
  "classify errorText =
     (let countErrorNewLines = length (js_split newline errorText) in
      if \<not> js_includes errorText ''ERROR:'' \<and> countErrorNewLines < 2
         \<and> js_includes (js_toLowerCase errorText) ''git clone''
      then IgnoreFalsePositive
      else if js_includes (js_toLowerCase errorText) ''warning''
              \<and> \<not> js_includes (js_toLowerCase errorText) ''error''
      then IgnoreWarning
      else if js_includes (js_toLowerCase errorText) ''docker''
      then Fatal
      else Ambiguous)"

definition spawn :: "env \<Rightarrow> string \<Rightarrow> string list \<Rightarrow> spawn_ret prog" where
  "spawn env cmd args w =
     (Inr (spawnSync env (trace w) cmd args), w\<lparr>trace := trace w @ [Spawn cmd args]\<rparr>)"

definition runProcess :: "env \<Rightarrow> string \<Rightarrow> string list \<Rightarrow> string prog" where
  "runProcess env cmd args =
     seq (spawn env cmd args) (\<lambda>ret.
       case ret_error ret of
         Some msg \<Rightarrow> raise (SlsError (tagged msg))
       | None \<Rightarrow>
           (let out = ret_stdout ret in
            seq (if ret_stderr ret \<noteq> []
                 then (let errorText = js_trim (ret_stderr ret) in
                       seq (log errorText) (\<lambda>_.
                         case classify errorText of
                           IgnoreFalsePositive \<Rightarrow> returns ()
                         | IgnoreWarning \<Rightarrow> returns ()
                         | Fatal \<Rightarrow>
                             seq (console_log [''stdout:'', out])
                               (\<lambda>_. error ''Docker Error Detected'')
                         | Ambiguous \<Rightarrow>
                             seq (console_log
                                    [''___ERROR DETECTED, BEGIN STDOUT____'' @ [newline], out])
                               (\<lambda>_. requestUserConfirmation env
                                      defaultPrompt defaultYesText defaultNoText)))
                 else returns ())
              (\<lambda>_. returns out)))"

subsection \<open>Configuration\<close>

text \<open>
  The object under \<open>custom.dependencyLayer\<close>, typed as the interface
  \<open>DependencyLayerConfig\<close> types it; a field may be absent. The flag
  \<open>abortOnPackagingErrors\<close>, which the interface does not declare, is a boolean as its
  default is.
\<close>

record raw_config =
  raw_playbooksFolder :: "string option"
  raw_requirementsFile :: "string option"
  raw_globalRequirements :: "string list option"
  raw_globalIncludes :: "string list option"
  raw_buildDir :: "string option"
  raw_containerName :: "string option"
  raw_cleanup :: "bool option"
  raw_dockerEnvs :: "string list option"
  raw_mountSSH :: "bool option"
  raw_dockerImage :: "string option"
  raw_abortOnPackagingErrors :: "bool option"

record config =
  playbooksFolder :: "string option"
  requirementsFile :: string
  globalRequirements :: "string list"
  globalIncludes :: "string list"
  buildDir :: string
  containerName :: string
  cleanup :: "bool option"
  dockerEnvs :: "string list"
  mountSSH :: bool
  dockerImage :: string
  abortOnPackagingErrors :: bool
  config_dockerServicePath :: string

definition emptyConfig :: raw_config where
  "emptyConfig = \<lparr> raw_playbooksFolder = None, raw_requirementsFile = None,
     raw_globalRequirements = None, raw_globalIncludes = None, raw_buildDir = None,
     raw_containerName = None, raw_cleanup = None, raw_dockerEnvs = None,
     raw_mountSSH = None, raw_dockerImage = None, raw_abortOnPackagingErrors = None \<rparr>"

text \<open>
  \<open>x || d\<close>: an absent value and the empty string are falsy, a list is truthy even
  when empty, and only \<open>true\<close> is a truthy boolean.
\<close>

definition orString :: "string option \<Rightarrow> string \<Rightarrow> string" where
  "orString x d = (case x of None \<Rightarrow> d | Some s \<Rightarrow> if s = [] then d else s)"

definition orList :: "'a list option \<Rightarrow> 'a list \<Rightarrow> 'a list" where
  "orList x d = (case x of None \<Rightarrow> d | Some l \<Rightarrow> l)"

definition orBool :: "bool option \<Rightarrow> bool \<Rightarrow> bool" where
  "orBool x d = (case x of None \<Rightarrow> d | Some b \<Rightarrow> if b then True else d)"

text \<open>A value inside a template literal: \<open>undefined\<close> prints as its name.\<close>

definition js_str :: "string option \<Rightarrow> string" where
  "js_str x = (case x of None \<Rightarrow> ''undefined'' | Some s \<Rightarrow> s)"

text \<open>
  Modelled from the spec: the objects of the host framework, which the source types as
  \<open>any\<close>. A build target of the host exposes a name, optional include paths and
  runtime and architecture metadata; a function exposes a name and a package whose
  artifact may be unset.
\<close>

record layer =
  layer_path :: "string option"
  layer_compatibleRuntimes :: "string list option"
  layer_compatibleArchitectures :: "string list option"
  layer_name :: "string option"
  layer_includes :: "string list option"

record func_config =
  func_name :: "string option"
  func_package :: "string option option"   \<comment> \<open>\<open>package\<close>, then \<open>package.artifact\<close>\<close>

record sls =
  service_custom :: "raw_config option option"   \<comment> \<open>\<open>custom\<close>, then \<open>custom.dependencyLayer\<close>\<close>
  service_provider_runtime :: "string option"
  service_layers :: "layer list"
  service_functions :: "(string \<times> func_config) list"

text \<open>
  \<open>getPluginConfig\<close>. The object read is an object or \<open>{}\<close>, so the test
  \<open>!config\<close> of the source never holds and has no branch here.
\<close>

definition getPluginConfig :: "sls \<Rightarrow> exn + config" where
  "getPluginConfig s =
     (case service_custom s of
        None \<Rightarrow> Inl (TypeError ''Cannot read properties of undefined'')
      | Some c \<Rightarrow>
          (let config = (case c of None \<Rightarrow> emptyConfig | Some r \<Rightarrow> r) in
           if orString (raw_buildDir config) [] = []
           then Inl (errorExn ''No buildDir configuration specified'')
           else Inr \<lparr>
             playbooksFolder = raw_playbooksFolder config,
             requirementsFile = orString (raw_requirementsFile config) ''requirements.txt'',
             globalRequirements =
               orList (raw_globalRequirements config) [''./functions/requirements.txt''],
             globalIncludes = orList (raw_globalIncludes config) [''./common_files''],
             buildDir = orString (raw_buildDir config) [],
             containerName = orString (raw_containerName config) fullPluginName,
             cleanup = raw_cleanup config,
             dockerEnvs = orList (raw_dockerEnvs config) [],
             mountSSH = orBool (raw_mountSSH config) False,
             dockerImage = orString (raw_dockerImage config)
               (''lambci/lambda:build-'' @ js_str (service_provider_runtime s)),
             abortOnPackagingErrors = orBool (raw_abortOnPackagingErrors config) True,
             config_dockerServicePath = ''/var/task'' \<rparr>))"

subsection \<open>Cleanup\<close>

text \<open>
  \<open>fse.remove(path).catch((err) => this.log(err))\<close>: the removal is started, and the
  handler logs a rejection once the synchronous code has returned.
\<close>

definition fse_remove_catch :: "env \<Rightarrow> string \<Rightarrow> unit prog" where
  "fse_remove_catch env path w =
     (Inr (), w\<lparr> trace := trace w @ [Remove path],
                pending := pending w @
                  (case removeRejects env (trace w) path of
                     None \<Rightarrow> []
                   | Some err \<Rightarrow> [Log (tagged err)]) \<rparr>)"

definition clean :: "env \<Rightarrow> config \<Rightarrow> bool prog" where
  "clean env cfg =
     (if cleanup cfg \<noteq> Some True
      then seq (log (''Cleanup is set to '' @ [CHR 0x22] @ ''false'' @ [CHR 0x22]
                  @ ''. Build directory and Docker container (if used) will be retained''))
             (\<lambda>_. returns False)
      else seq (log ''Cleaning build directory...'') (\<lambda>_.
           seq (fse_remove_catch env (buildDir cfg)) (\<lambda>_.
           seq (log ''Removing Docker container...'') (\<lambda>_.
           seq (runProcess env ''docker'' [''stop'', containerName cfg, ''-t'', ''0'']) (\<lambda>_.
           returns True)))))"

subsection \<open>Targets and requirements\<close>

record target =
  target_path :: "string option"
  target_compatibleRuntimes :: "string list option"
  target_compatibleArchitectures :: "string list option"
  target_name :: "string option"
  target_includes :: "string list option"   \<comment> \<open>read by \<open>makePackage\<close>, never set by \<open>selectAll\<close>\<close>

definition selectAll :: "sls \<Rightarrow> target list" where
  "selectAll s =
     map (\<lambda>t. \<lparr> target_path = layer_path t,
                target_compatibleRuntimes = layer_compatibleRuntimes t,
                target_compatibleArchitectures = layer_compatibleArchitectures t,
                target_name = layer_name t,
                target_includes = None \<rparr>)
       (service_layers s)"

definition installRequirements ::
    "env \<Rightarrow> config \<Rightarrow> string \<Rightarrow> string \<Rightarrow> string option prog" where
  "installRequirements env cfg buildPath requirementsPath w =
     (if \<not> existsSync env (trace w) requirementsPath then returns None w
      else case statSync env (trace w) requirementsPath of
        Inl msg \<Rightarrow> raise (FsError msg) w
      | Inr fileSize \<Rightarrow>
          if fileSize = 0
          then seq (log (''WARNING: requirements file at '' @ requirementsPath
                      @ '' is empty. Skiping.''))
                 (\<lambda>_. returns None) w
          else (let args0 = [''install'', ''--upgrade'', ''-t'',
                             upathNormalize env buildPath, ''-r''];
                    cmd = ''docker'';
                    args1 = [''exec'', containerName cfg, ''pip''] @ args0;
                    requirementsPath1 = dockerServicePath @ ''/'' @ requirementsPath;
                    args2 = args1 @ [upathNormalize env requirementsPath1]
                in seq (runProcess env cmd args2) (\<lambda>out. returns (Some out)) w))"

subsection \<open>Docker\<close>

definition checkDocker :: "env \<Rightarrow> unit prog" where
  "checkDocker env =
     seq (runProcess env ''docker'' [''version'', ''-f'',
            ''Server Version {{.Server.Version}} & Client Version {{.Client.Version}}''])
       (\<lambda>out. log (''Using Docker '' @ out))"

fun autoconfigArtifacts :: "config \<Rightarrow> (string \<times> func_config) list \<Rightarrow> unit prog" where
  "autoconfigArtifacts cfg [] = returns ()"
| "autoconfigArtifacts cfg ((key, func) # rest) =
     (let autoArtifact = buildDir cfg @ ''/'' @ js_str (func_name func) @ ''.zip'' in
      case func_package func of
        None \<Rightarrow> raise (TypeError ''Cannot read properties of undefined'')
      | Some artifact \<Rightarrow>
          seq (emit (SetArtifact key (orString artifact autoArtifact)))
            (\<lambda>_. autoconfigArtifacts cfg rest))"

definition runArgs :: "env \<Rightarrow> config \<Rightarrow> string list" where
  "runArgs env cfg =
     [''run'', ''--rm'', ''-dt'', ''-v'', cwd env @ '':'' @ dockerServicePath]
     @ concat (map (\<lambda>envVar. [''-e'', envVar]) (dockerEnvs cfg))
     @ (if mountSSH cfg then [''-v'', js_str (envHOME env) @ ''/.ssh:/root/.ssh''] else [])
     @ [''--name'', containerName cfg, dockerImage cfg, ''bash'']"

definition psArgs :: "config \<Rightarrow> string list" where
  "psArgs cfg = [''ps'', ''-a'', ''--filter'', ''name='' @ containerName cfg,
                 ''--format'', ''{{.Names}}'']"

definition setupContainer :: "env \<Rightarrow> config \<Rightarrow> unit prog" where
  "setupContainer env cfg =
     seq (runProcess env ''docker'' (psArgs cfg)) (\<lambda>out0.
     let out = js_trim out0 in
     seq (if out = containerName cfg
          then seq (log ''Container already exists. Killing it and reusing.'') (\<lambda>_.
               seq (runProcess env ''docker'' [''kill'', containerName cfg]) (\<lambda>out1.
               log out1))
          else returns ()) (\<lambda>_.
     seq (runProcess env ''docker'' (runArgs env cfg)) (\<lambda>_.
     log ''Container created'')))"

definition ensureImage :: "env \<Rightarrow> config \<Rightarrow> unit prog" where
  "ensureImage env cfg =
     seq (runProcess env ''docker'' [''images'', ''--format'', ''{{.Repository}}:{{.Tag}}'',
            ''--filter'', ''reference='' @ dockerImage cfg]) (\<lambda>out0.
     let out = js_trim out0 in
     if out \<noteq> dockerImage cfg
     then seq (log (''Docker Image '' @ dockerImage cfg
                 @ '' is not already installed on your system. Downloading. This might take a while. Subsequent deploys will be faster...''))
            (\<lambda>_. seq (runProcess env ''docker'' [''pull'', dockerImage cfg]) (\<lambda>_. returns ()))
     else returns ())"

definition setupDocker :: "env \<Rightarrow> config \<Rightarrow> unit prog" where
  "setupDocker env cfg =
     seq (log ''Packaging using Docker container...'') (\<lambda>_.
     seq (checkDocker env) (\<lambda>_.
     seq (ensureImage env cfg) (\<lambda>_.
     seq (log (''Creating Docker container '' @ [CHR 0x22] @ containerName cfg
            @ [CHR 0x22] @ ''...'')) (\<lambda>_.
     seq (setupContainer env cfg) (\<lambda>_.
     log ''Docker setup completed'')))))"

subsection \<open>Packaging one target\<close>

text \<open>A synchronous file system call: it is recorded, and it may throw.\<close>

definition fs_call :: "env \<Rightarrow> event \<Rightarrow> unit prog" where
  "fs_call env ev w =
     (case fsThrows env (trace w) ev of
        None \<Rightarrow> (Inr (), w\<lparr>trace := trace w @ [ev]\<rparr>)
      | Some msg \<Rightarrow> (Inl (FsError msg), w\<lparr>trace := trace w @ [ev]\<rparr>))"

fun copyIncludes :: "env \<Rightarrow> string \<Rightarrow> string list \<Rightarrow> unit prog" where
  "copyIncludes env buildPath [] = returns ()"
| "copyIncludes env buildPath (item # items) =
     seq (\<lambda>w. if existsSync env (trace w) item
              then fs_call env (Copy item buildPath) w
              else returns () w)
       (\<lambda>_. copyIncludes env buildPath items)"

fun installAll :: "env \<Rightarrow> config \<Rightarrow> string \<Rightarrow> string list \<Rightarrow> unit prog" where
  "installAll env cfg buildPath [] = returns ()"
| "installAll env cfg buildPath (req # reqs) =
     seq (\<lambda>w. if existsSync env (trace w) req
              then seq (installRequirements env cfg buildPath req) (\<lambda>_. returns ()) w
              else returns () w)
       (\<lambda>_. installAll env cfg buildPath reqs)"

definition makePackage :: "env \<Rightarrow> config \<Rightarrow> target \<Rightarrow> unit prog" where
  "makePackage env cfg target =
     seq (log (''Packaging '' @ js_str (target_name target) @ ''...'')) (\<lambda>_.
     case target_name target of
       None \<Rightarrow> raise (TypeError ''The path argument must be of type string'')
     | Some name \<Rightarrow>
         (let buildPath = pathJoin env (buildDir cfg) name;
              requirementsPath = pathJoin env buildPath (requirementsFile cfg);
              includes = orList (target_includes target) [] @ globalIncludes cfg;
              requirementsFiles = [requirementsPath] @ globalRequirements cfg
          in seq (fs_call env (EnsureDir buildPath)) (\<lambda>_.
             seq (copyIncludes env buildPath includes) (\<lambda>_.
             seq (installAll env cfg buildPath requirementsFiles) (\<lambda>_.
             fs_call env (Zip buildPath (buildPath @ ''.zip'')))))))"

subsection \<open>The two hooks\<close>

text \<open>
  \<open>.map(this.makePackage)\<close> of a Bluebird promise calls the mapper on the targets in
  order and rejects at the first call that throws, without calling it again.
\<close>

fun mapMakePackage :: "env \<Rightarrow> config \<Rightarrow> target list \<Rightarrow> unit list prog" where
  "mapMakePackage env cfg [] = returns []"
| "mapMakePackage env cfg (t # ts) =
     seq (makePackage env cfg t) (\<lambda>r.
     seq (mapMakePackage env cfg ts) (\<lambda>rs. returns (r # rs)))"

text \<open>The handlers queued by promises run when the synchronous code has returned.\<close>

definition settle :: "'a prog \<Rightarrow> 'a prog" where
  "settle m w =
     (case m w of (r, w') \<Rightarrow> (r, w'\<lparr>trace := trace w' @ pending w', pending := []\<rparr>))"

definition beforeCreateDeploymentArtifacts :: "env \<Rightarrow> config \<Rightarrow> sls \<Rightarrow> unit list prog" where
  "beforeCreateDeploymentArtifacts env cfg s =
     settle
       (seq (autoconfigArtifacts cfg (service_functions s)) (\<lambda>_.
        seq (emit (EnsureDirAsync (buildDir cfg))) (\<lambda>_.
        seq (setupDocker env cfg) (\<lambda>_.
        seq (returns (selectAll s)) (\<lambda>targets.
        mapMakePackage env cfg targets)))))"

definition afterDeploy :: "env \<Rightarrow> config \<Rightarrow> bool prog" where
  "afterDeploy env cfg = settle (clean env cfg)"

section \<open>The words of the specification\<close>

text \<open>
  What the specification says of a text, stated on lists: the number of its lines, a
  literal marker occurring in it, a phrase occurring in it whatever the case of its
  letters, and the letter \<open>y\<close> occurring in it.
\<close>

definition lineCount :: "string \<Rightarrow> nat" where
  "lineCount t = Suc (count_list t newline)"

definition containsText :: "string \<Rightarrow> string \<Rightarrow> bool" where
  "containsText t marker = sublist marker t"

definition containsIgnoringCase :: "string \<Rightarrow> string \<Rightarrow> bool" where
  "containsIgnoringCase t phrase = sublist (js_toLowerCase phrase) (js_toLowerCase t)"

definition falsePositiveRule :: "string \<Rightarrow> bool" where
  "falsePositiveRule t =
     (lineCount t < 2 \<and> \<not> containsText t ''ERROR:'' \<and> containsIgnoringCase t ''git clone'')"

definition warningRule :: "string \<Rightarrow> bool" where
  "warningRule t = (containsIgnoringCase t ''warning'' \<and> \<not> containsIgnoringCase t ''error'')"

definition hasLetterY :: "string \<Rightarrow> bool" where
  "hasLetterY r = (CHR ''y'' \<in> set r \<or> CHR ''Y'' \<in> set r)"

text \<open>The message printed when the operator declines, and the error then raised.\<close>

definition abortEvent :: event where
  "abortEvent = ConsoleLog [defaultNoText]"

definition abortExn :: exn where
  "abortExn = errorExn ''Aborting''"

text \<open>The events added between two states, and the processes launched among events.\<close>

definition since :: "world \<Rightarrow> world \<Rightarrow> event list" where
  "since w w' = drop (length (trace w)) (trace w')"

fun spawned :: "event \<Rightarrow> (string \<times> string list) list" where
  "spawned (Spawn cmd args) = [(cmd, args)]"
| "spawned _ = []"

definition spawns :: "event list \<Rightarrow> (string \<times> string list) list" where
  "spawns tr = concat (map spawned tr)"


text \<open>
  An operation keeps the abort final when it queues no handler, only adds events, and, if
  the abort message is among the events it added, raised the abort error with that message
  as the last event.
\<close>

definition abortFinal :: "world \<Rightarrow> (exn + 'a) \<times> world \<Rightarrow> bool" where
  "abortFinal w res =
     (case res of (r, w') \<Rightarrow>
        pending w' = pending w \<and> prefix (trace w) (trace w') \<and>
        (abortEvent \<in> set (since w w') \<longrightarrow> r = Inl abortExn \<and> last (trace w') = abortEvent))"


text \<open>The \<open>buildDir\<close> that the configuration of the service supplies, if any.\<close>

definition suppliedBuildDir :: "sls \<Rightarrow> string option" where
  "suppliedBuildDir s =
     (case service_custom s of
        Some (Some r) \<Rightarrow> raw_buildDir r
      | _ \<Rightarrow> None)"


section \<open>Example environments\<close>

definition exited :: "string \<Rightarrow> string \<Rightarrow> spawn_ret" where
  "exited out err =
     \<lparr> ret_error = None, ret_status = Some 0, ret_stdout = out, ret_stderr = err \<rparr>"

definition notLaunched :: "string \<Rightarrow> spawn_ret" where
  "notLaunched msg =
     \<lparr> ret_error = Some msg, ret_status = None, ret_stdout = [], ret_stderr = [] \<rparr>"

definition exampleEnv ::
    "(string \<Rightarrow> string list \<Rightarrow> spawn_ret) \<Rightarrow> string \<Rightarrow> (string \<Rightarrow> bool) \<Rightarrow> env" where
  "exampleEnv sp answer ex =
     \<lparr> spawnSync = (\<lambda>tr. sp), question = (\<lambda>tr p. answer), existsSync = (\<lambda>tr. ex),
       statSync = (\<lambda>tr p. Inr 1), fsThrows = (\<lambda>tr ev. None),
       removeRejects = (\<lambda>tr p. None), pathJoin = (\<lambda>a b. a @ ''/'' @ b),
       upathNormalize = (\<lambda>p. p), cwd = ''/work'', envHOME = Some ''/home/dev'' \<rparr>"

definition exampleConfig :: config where
  "exampleConfig =
     \<lparr> playbooksFolder = None, requirementsFile = ''requirements.txt'',
       globalRequirements = [''./functions/requirements.txt''],
       globalIncludes = [''./shared''], buildDir = ''./build'',
       containerName = ''depLayerPkg'', cleanup = Some True, dockerEnvs = [],
       mountSSH = False, dockerImage = ''lambci/lambda:build-python3.8'',
       abortOnPackagingErrors = True, config_dockerServicePath = ''/var/task'' \<rparr>"

definition start :: world where
  "start = \<lparr> trace = [], pending = [] \<rparr>"

definition quiet :: "string \<Rightarrow> string list \<Rightarrow> spawn_ret" where
  "quiet cmd args = exited [] []"

definition failingPip :: "string \<Rightarrow> string list \<Rightarrow> spawn_ret" where
  "failingPip cmd args =
     (if take 1 args = [''exec''] then exited [] ''ERROR: boom'' else exited [] [])"

definition exampleLayer :: "string \<Rightarrow> string list option \<Rightarrow> layer" where
  "exampleLayer name incl =
     \<lparr> layer_path = Some (''layers/'' @ name), layer_compatibleRuntimes = Some [''python3.8''],
       layer_compatibleArchitectures = None, layer_name = Some name, layer_includes = incl \<rparr>"

definition exampleSls :: sls where
  "exampleSls =
     \<lparr> service_custom = Some (Some (emptyConfig\<lparr>raw_buildDir := Some ''./build''\<rparr>)),
       service_provider_runtime = Some ''python3.8'',
       service_layers = [exampleLayer ''api'' (Some [''./common'']), exampleLayer ''web'' None],
       service_functions = [(''hello'', \<lparr>func_name = Some ''hello'', func_package = Some None\<rparr>)] \<rparr>"





definition dockerMissing :: "string \<Rightarrow> string list \<Rightarrow> spawn_ret" where
  "dockerMissing cmd args = notLaunched ''spawnSync docker ENOENT''"

definition containerGone :: "string \<Rightarrow> string list \<Rightarrow> spawn_ret" where
  "containerGone cmd args =
     (exited [] ''Error response from daemon: No such container: depLayerPkg'')
       \<lparr>ret_status := Some 1\<rparr>"


section \<open>Properties\<close>

subsection \<open>The text operations\<close>

lemma length_js_split: "length (js_split sep s) = Suc (count_list s sep)"
  by (induction s) (auto split: list.splits)

lemma js_includes_sublist: "js_includes s n \<longleftrightarrow> sublist n s"
  by (induction s) (auto simp: sublist_Cons_right)

lemma lowerChar_y: "lowerChar c = CHR ''y'' \<longleftrightarrow> c = CHR ''y'' \<or> c = CHR ''Y''"
  by (auto simp: lowerChar_def split: if_splits)

lemma includes_single: "js_includes s [c] \<longleftrightarrow> c \<in> set s"
  by (induction s) auto

lemma lowerChar_y_sym: "CHR ''y'' = lowerChar c \<longleftrightarrow> c = CHR ''y'' \<or> c = CHR ''Y''"
  using lowerChar_y [of c] by auto

lemma has_y: "js_includes (js_toLowerCase s) ''y'' \<longleftrightarrow> hasLetterY s"
  by (auto simp: includes_single js_toLowerCase_def hasLetterY_def image_iff lowerChar_y_sym)

lemma lower_idem: "js_toLowerCase ''git clone'' = ''git clone''" "js_toLowerCase ''warning'' = ''warning''"
  "js_toLowerCase ''error'' = ''error''" "js_toLowerCase ''docker'' = ''docker''"
  by (simp_all add: js_toLowerCase_def lowerChar_def)

lemma classify_rules:
  "classify t = (if falsePositiveRule t then IgnoreFalsePositive
                 else if warningRule t then IgnoreWarning
                 else if containsIgnoringCase t ''docker'' then Fatal else Ambiguous)"
  by (simp add: classify_def falsePositiveRule_def warningRule_def containsIgnoringCase_def
      containsText_def lineCount_def js_includes_sublist length_js_split lower_idem)

lemma runProcess_eq:
  "runProcess env cmd args w =
    (let ret = spawnSync env (trace w) cmd args;
         out = ret_stdout ret;
         w1 = w\<lparr>trace := trace w @ [Spawn cmd args]\<rparr>
     in case ret_error ret of
          Some msg \<Rightarrow> (Inl (SlsError (tagged msg)), w1)
        | None \<Rightarrow>
           if ret_stderr ret = [] then (Inr out, w1)
           else (let t = js_trim (ret_stderr ret);
                     w2 = w\<lparr>trace := trace w @ [Spawn cmd args, Log (tagged t)]\<rparr>
                 in case classify t of
                      IgnoreFalsePositive \<Rightarrow> (Inr out, w2)
                    | IgnoreWarning \<Rightarrow> (Inr out, w2)
                    | Fatal \<Rightarrow> (Inl (errorExn ''Docker Error Detected''),
                        w\<lparr>trace := trace w @ [Spawn cmd args, Log (tagged t), ConsoleLog [''stdout:'', out]]\<rparr>)
                    | Ambiguous \<Rightarrow>
                        seq (requestUserConfirmation env defaultPrompt defaultYesText defaultNoText)
                          (\<lambda>_. returns out)
                          (w\<lparr>trace := trace w @ [Spawn cmd args, Log (tagged t),
                             ConsoleLog [''___ERROR DETECTED, BEGIN STDOUT____'' @ [newline], out]]\<rparr>)))"
  by (simp add: runProcess_def seq_def spawn_def raise_def returns_def log_def emit_def
      console_log_def error_def Let_def split: option.splits classification.splits prod.splits sum.splits)

text \<open>
  The text that is classified is the captured stderr, trimmed. Trimming changes none of
  the phrases the text contains, and can only lower its number of lines.
\<close>

lemma sublist_dropWhile:
  assumes "n \<noteq> []" and "\<not> P (hd n)"
  shows "sublist n (dropWhile P s) \<longleftrightarrow> sublist n s"
proof (induction s)
  case Nil
  show ?case by simp
next
  case (Cons x xs)
  show ?case
  proof (cases "P x")
    case True
    with assms have "\<not> prefix n (x # xs)"
      by (cases n) auto
    with True Cons.IH show ?thesis
      by (simp add: sublist_Cons_right)
  next
    case False
    then show ?thesis by simp
  qed
qed

lemma sublist_trim:
  assumes "n \<noteq> []" and "\<not> isWhiteSpace (hd n)" and "\<not> isWhiteSpace (last n)"
  shows "sublist n (js_trim s) \<longleftrightarrow> sublist n s"
proof -
  have "sublist n (js_trim s) \<longleftrightarrow> sublist (rev n) (dropWhile isWhiteSpace (rev (dropWhile isWhiteSpace s)))"
    unfolding js_trim_def by (metis rev_rev_ident sublist_rev)
  also have "\<dots> \<longleftrightarrow> sublist (rev n) (rev (dropWhile isWhiteSpace s))"
    using assms by (intro sublist_dropWhile) (simp_all add: hd_rev)
  also have "\<dots> \<longleftrightarrow> sublist n (dropWhile isWhiteSpace s)"
    by simp
  also have "\<dots> \<longleftrightarrow> sublist n s"
    using assms by (intro sublist_dropWhile)
  finally show ?thesis .
qed

lemma isWhiteSpace_lowerChar: "isWhiteSpace (lowerChar c) = isWhiteSpace c"
  by (auto simp: lowerChar_def isWhiteSpace_def split: if_splits)

lemma toLowerCase_trim: "js_toLowerCase (js_trim s) = js_trim (js_toLowerCase s)"
  by (simp add: js_toLowerCase_def js_trim_def rev_map dropWhile_map comp_def
      isWhiteSpace_lowerChar)

lemma count_dropWhile_le: "count_list (dropWhile P s) c \<le> count_list s c"
  by (induction s) auto

lemma lineCount_trim: "lineCount (js_trim s) \<le> lineCount s"
proof -
  have "count_list (js_trim s) newline
      = count_list (dropWhile isWhiteSpace (rev (dropWhile isWhiteSpace s))) newline"
    by (simp add: js_trim_def)
  also have "\<dots> \<le> count_list (rev (dropWhile isWhiteSpace s)) newline"
    by (rule count_dropWhile_le)
  also have "\<dots> \<le> count_list s newline"
    by (simp add: count_dropWhile_le)
  finally show ?thesis by (simp add: lineCount_def)
qed

lemma trim_keeps_phrases:
  "containsText (js_trim s) ''ERROR:'' = containsText s ''ERROR:''"
  "containsIgnoringCase (js_trim s) ''git clone'' = containsIgnoringCase s ''git clone''"
  "containsIgnoringCase (js_trim s) ''warning'' = containsIgnoringCase s ''warning''"
  "containsIgnoringCase (js_trim s) ''error'' = containsIgnoringCase s ''error''"
  "containsIgnoringCase (js_trim s) ''docker'' = containsIgnoringCase s ''docker''"
  by (simp_all add: containsText_def containsIgnoringCase_def toLowerCase_trim lower_idem
      sublist_trim isWhiteSpace_def)

lemma rules_on_captured_text:
  "falsePositiveRule s \<Longrightarrow> falsePositiveRule (js_trim s)"
  "warningRule (js_trim s) = warningRule s"
  using lineCount_trim [of s]
  by (simp_all add: falsePositiveRule_def warningRule_def trim_keeps_phrases)

subsection \<open>The command runner\<close>

lemma requestUserConfirmation_eq:
  "requestUserConfirmation env prompt yesText noText w =
     (if hasLetterY (question env (trace w) prompt)
      then (Inr (), w\<lparr>trace := trace w @ [Question prompt, ConsoleLog [yesText]]\<rparr>)
      else (Inl abortExn, w\<lparr>trace := trace w @ [Question prompt, ConsoleLog [noText]]\<rparr>))"
  by (simp add: requestUserConfirmation_def has_y console_log_def emit_def seq_def error_def
      raise_def abortExn_def Let_def)


lemma example_spawn: "spawnSync (exampleEnv sp answer ex) tr cmd args = sp cmd args"
  by (simp add: exampleEnv_def)

lemma example_question: "question (exampleEnv sp answer ex) tr p = answer"
  by (simp add: exampleEnv_def)

lemma exited_sel:
  "ret_error (exited out err) = None" "ret_stdout (exited out err) = out"
  "ret_stderr (exited out err) = err"
  by (simp_all add: exited_def)


text \<open>
  Claim C2, amended. For a launched process with a non-empty captured stderr whose
  trimmed text matches neither ignore rule: if the text contains \<open>docker\<close> in any
  case, \<open>runProcess\<close> prints the captured stdout and raises, asking the operator
  nothing; for any other text it prints the captured stdout and hands over to the
  confirmation gate, returning the stdout if the gate returns. The captured text and the
  trimmed one contain \<open>docker\<close> alike and match the warning rule alike; only the number
  of lines, which the first rule reads, can differ.
\<close>

theorem C2_fatal_or_gate:
  assumes "spawnSync env (trace w) cmd args = ret"
    and "ret_error ret = None"
    and "ret_stderr ret \<noteq> []"
    and "js_trim (ret_stderr ret) = t"
    and "\<not> falsePositiveRule t"
    and "\<not> warningRule t"
  shows "(if containsIgnoringCase t ''docker''
          then classify t = Fatal \<and>
               runProcess env cmd args w =
                 (Inl (errorExn ''Docker Error Detected''),
                  w\<lparr>trace := trace w @ [Spawn cmd args, Log (tagged t),
                       ConsoleLog [''stdout:'', ret_stdout ret]]\<rparr>)
          else classify t = Ambiguous \<and>
               runProcess env cmd args w =
                 seq (requestUserConfirmation env defaultPrompt defaultYesText defaultNoText)
                   (\<lambda>_. returns (ret_stdout ret))
                   (w\<lparr>trace := trace w @ [Spawn cmd args, Log (tagged t),
                       ConsoleLog [''___ERROR DETECTED, BEGIN STDOUT____'' @ [newline],
                                   ret_stdout ret]]\<rparr>))
       \<and> containsIgnoringCase (ret_stderr ret) ''docker'' = containsIgnoringCase t ''docker''
       \<and> warningRule (ret_stderr ret) = warningRule t"
  using assms trim_keeps_phrases(5) [of "ret_stderr ret"]
    rules_on_captured_text(2) [of "ret_stderr ret"]
  by (auto simp add: runProcess_eq classify_rules Let_def)

text \<open>
  Against claim C2 as stated: a captured stderr that is an empty line followed by a
  \<open>git clone\<close> notice has two lines, so it matches neither ignore rule, and it does not
  contain \<open>docker\<close>; yet \<open>runProcess\<close> logs the trimmed notice and returns the stdout,
  printing no stdout and asking nothing. With \<open>docker\<close> in the notice no error is raised
  either.
\<close>

theorem C2_blank_line_before_notice:
  "\<not> falsePositiveRule (newline # ''git clone -q x'')
   \<and> \<not> warningRule (newline # ''git clone -q x'')
   \<and> \<not> containsIgnoringCase (newline # ''git clone -q x'') ''docker''
   \<and> runProcess (exampleEnv (\<lambda>c a. exited ''ok'' (newline # ''git clone -q x'')) ''n''
          (\<lambda>p. False)) ''pip'' [] start
       = (Inr ''ok'',
          \<lparr>trace = [Spawn ''pip'' [], Log (tagged ''git clone -q x'')], pending = []\<rparr>)
   \<and> \<not> falsePositiveRule (newline # ''docker: git clone'')
   \<and> \<not> warningRule (newline # ''docker: git clone'')
   \<and> containsIgnoringCase (newline # ''docker: git clone'') ''docker''
   \<and> runProcess (exampleEnv (\<lambda>c a. exited ''ok'' (newline # ''docker: git clone'')) ''n''
          (\<lambda>p. False)) ''pip'' [] start
       = (Inr ''ok'',
          \<lparr>trace = [Spawn ''pip'' [], Log (tagged ''docker: git clone'')], pending = []\<rparr>)"
proof -
  have p1: "\<not> falsePositiveRule (newline # ''git clone -q x'')"
    "\<not> warningRule (newline # ''git clone -q x'')"
    "\<not> containsIgnoringCase (newline # ''git clone -q x'') ''docker''"
    by code_simp+
  have p2: "\<not> falsePositiveRule (newline # ''docker: git clone'')"
    "\<not> warningRule (newline # ''docker: git clone'')"
    "containsIgnoringCase (newline # ''docker: git clone'') ''docker''"
    by code_simp+
  have t1: "js_trim (newline # ''git clone -q x'') = ''git clone -q x''"
    "classify ''git clone -q x'' = IgnoreFalsePositive"
    by code_simp+
  have t2: "js_trim (newline # ''docker: git clone'') = ''docker: git clone''"
    "classify ''docker: git clone'' = IgnoreFalsePositive"
    by code_simp+
  have "runProcess (exampleEnv (\<lambda>c a. exited ''ok'' (newline # ''git clone -q x'')) ''n''
          (\<lambda>p. False)) ''pip'' [] start
       = (Inr ''ok'',
          \<lparr>trace = [Spawn ''pip'' [], Log (tagged ''git clone -q x'')], pending = []\<rparr>)"
    by (simp add: runProcess_eq example_spawn exited_sel t1 start_def)
  moreover have "runProcess (exampleEnv (\<lambda>c a. exited ''ok'' (newline # ''docker: git clone''))
          ''n'' (\<lambda>p. False)) ''pip'' [] start
       = (Inr ''ok'',
          \<lparr>trace = [Spawn ''pip'' [], Log (tagged ''docker: git clone'')], pending = []\<rparr>)"
    by (simp add: runProcess_eq example_spawn exited_sel t2 start_def)
  ultimately show ?thesis
    using p1 p2 by blast
qed

text \<open>C2 at a Docker diagnostic and at an installer error the operator accepts.\<close>

theorem C2_fatal_or_gate_witness:
  "runProcess (exampleEnv (\<lambda>c a. exited ''ok'' ''docker: no daemon'') ''yes'' (\<lambda>p. False))
      ''docker'' [''version''] start
     = (Inl (errorExn ''Docker Error Detected''),
        \<lparr>trace = [Spawn ''docker'' [''version''], Log (tagged ''docker: no daemon''),
                  ConsoleLog [''stdout:'', ''ok'']], pending = []\<rparr>)
   \<and> runProcess (exampleEnv (\<lambda>c a. exited ''ok'' ''ERROR: boom'') ''yes'' (\<lambda>p. False))
      ''pip'' [] start
     = (Inr ''ok'',
        \<lparr>trace = [Spawn ''pip'' [], Log (tagged ''ERROR: boom''),
                  ConsoleLog [''___ERROR DETECTED, BEGIN STDOUT____'' @ [newline], ''ok''],
                  Question defaultPrompt, ConsoleLog [defaultYesText]], pending = []\<rparr>)"
proof -
  have t1: "js_trim ''docker: no daemon'' = ''docker: no daemon''"
    by code_simp
  have r1: "\<not> falsePositiveRule ''docker: no daemon''" "\<not> warningRule ''docker: no daemon''"
    "containsIgnoringCase ''docker: no daemon'' ''docker''"
    by code_simp+
  have t2: "js_trim ''ERROR: boom'' = ''ERROR: boom''"
    by code_simp
  have r2: "\<not> falsePositiveRule ''ERROR: boom''" "\<not> warningRule ''ERROR: boom''"
    "\<not> containsIgnoringCase ''ERROR: boom'' ''docker''"
    by code_simp+
  have y: "hasLetterY ''yes''"
    by code_simp
  show ?thesis
    using C2_fatal_or_gate [where w = start and cmd = "''docker''" and args = "[''version'']"
        and env = "exampleEnv (\<lambda>c a. exited ''ok'' ''docker: no daemon'') ''yes'' (\<lambda>p. False)"
        and ret = "exited ''ok'' ''docker: no daemon''" and t = "''docker: no daemon''"]
      C2_fatal_or_gate [where w = start and cmd = "''pip''" and args = "[]"
        and env = "exampleEnv (\<lambda>c a. exited ''ok'' ''ERROR: boom'') ''yes'' (\<lambda>p. False)"
        and ret = "exited ''ok'' ''ERROR: boom''" and t = "''ERROR: boom''"]
      t1 t2 r1 r2 y
    by (simp add: example_spawn exited_sel start_def requestUserConfirmation_eq
        example_question seq_def returns_def)
qed

text \<open>
  Claim C8. When the process was launched and its captured stderr is empty,
  \<open>runProcess\<close> returns the captured stdout, having logged, classified and asked
  nothing; and whatever exit code the environment reports, \<open>runProcess\<close> behaves the
  same.
\<close>

theorem C8_empty_stderr_is_success:
  "(ret_error (spawnSync env (trace w) cmd args) = None \<and>
    ret_stderr (spawnSync env (trace w) cmd args) = [] \<longrightarrow>
      runProcess env cmd args w =
        (Inr (ret_stdout (spawnSync env (trace w) cmd args)),
         w\<lparr>trace := trace w @ [Spawn cmd args]\<rparr>))
   \<and> runProcess
        (env\<lparr>spawnSync := \<lambda>tr c a. (spawnSync env tr c a)\<lparr>ret_status := code tr c a\<rparr>\<rparr>)
        cmd args w
      = runProcess env cmd args w"
  by (simp add: runProcess_eq Let_def requestUserConfirmation_eq seq_def
      split: option.splits classification.splits)

text \<open>C8 at a process that exits with code 1 and an empty stderr.\<close>

theorem C8_empty_stderr_is_success_witness:
  "runProcess (exampleEnv (\<lambda>c a. (exited ''built'' [])\<lparr>ret_status := Some 1\<rparr>) [] (\<lambda>p. False))
      ''pip'' [''install''] start
     = (Inr ''built'', \<lparr>trace = [Spawn ''pip'' [''install'']], pending = []\<rparr>)"
  using C8_empty_stderr_is_success
      [of "exampleEnv (\<lambda>c a. (exited ''built'' [])\<lparr>ret_status := Some 1\<rparr>) [] (\<lambda>p. False)"
          start "''pip''" "[''install'']"]
  by (simp add: example_spawn exited_def start_def)

subsection \<open>An abort ends the run\<close>

lemma since_append: "since w (w'\<lparr>trace := trace w @ xs\<rparr>) = xs"
  by (simp add: since_def)

lemma abortFinal_seq:
  assumes m: "\<And>w. abortFinal w (m w)" and f: "\<And>x w. abortFinal w (f x w)"
  shows "abortFinal w (seq m f w)"
proof (cases "m w")
  case (Pair r w1)
  show ?thesis
  proof (cases r)
    case (Inl e)
    with Pair m [of w] show ?thesis by (simp add: seq_def abortFinal_def)
  next
    case (Inr x)
    obtain r2 w2 where fx: "f x w1 = (r2, w2)" by (cases "f x w1")
    from m [of w] Pair Inr obtain a where a: "trace w1 = trace w @ a" "pending w1 = pending w"
      "abortEvent \<notin> set a"
      by (auto simp: abortFinal_def prefix_def since_def)
    from f [of w1 x] fx obtain b where b: "trace w2 = trace w1 @ b" "pending w2 = pending w1"
      "abortEvent \<in> set b \<longrightarrow> r2 = Inl abortExn \<and> last (trace w2) = abortEvent"
      by (auto simp: abortFinal_def prefix_def since_def)
    from a b have "abortFinal w (r2, w2)"
      by (auto simp: abortFinal_def since_def)
    with Pair Inr fx show ?thesis by (simp add: seq_def)
  qed
qed

lemma abortFinal_returns: "abortFinal w (returns x w)"
  by (simp add: abortFinal_def returns_def since_def)

lemma abortFinal_raise: "abortFinal w (raise e w)"
  by (simp add: abortFinal_def raise_def since_def)

lemma abortFinal_error: "abortFinal w (error msg w)"
  by (simp add: error_def abortFinal_raise)

lemma abortFinal_emit: "ev \<noteq> abortEvent \<Longrightarrow> abortFinal w (emit ev w)"
  by (simp add: abortFinal_def emit_def since_def)

lemma abortFinal_log: "abortFinal w (log msg w)"
  by (simp add: log_def abortFinal_emit abortEvent_def)

lemma abortFinal_fs_call: "ev \<noteq> abortEvent \<Longrightarrow> abortFinal w (fs_call env ev w)"
  by (simp add: abortFinal_def fs_call_def since_def split: option.splits)

lemma abortFinal_requestUserConfirmation:
  "abortFinal w (requestUserConfirmation env defaultPrompt defaultYesText defaultNoText w)"
  by (simp add: requestUserConfirmation_eq abortFinal_def since_def abortEvent_def
      defaultYesText_def defaultNoText_def)

lemma abortFinal_runProcess: "abortFinal w (runProcess env cmd args w)"
  by (auto simp: runProcess_eq Let_def abortFinal_def since_def abortEvent_def seq_def
      requestUserConfirmation_eq returns_def defaultYesText_def defaultNoText_def
      split: option.splits classification.splits)

lemmas abortFinal_intros = abortFinal_seq abortFinal_returns abortFinal_raise abortFinal_error
  abortFinal_log abortFinal_runProcess

lemma abortFinal_installRequirements:
  "abortFinal w (installRequirements env cfg buildPath req w)"
  unfolding installRequirements_def Let_def
  by (auto intro!: abortFinal_intros split: sum.splits)

lemma abortFinal_checkDocker: "abortFinal w (checkDocker env w)"
  unfolding checkDocker_def by (intro abortFinal_intros)

lemma abortFinal_ensureImage: "abortFinal w (ensureImage env cfg w)"
  unfolding ensureImage_def Let_def by (auto intro!: abortFinal_intros)

lemma abortFinal_setupContainer: "abortFinal w (setupContainer env cfg w)"
  unfolding setupContainer_def Let_def by (auto intro!: abortFinal_intros)

lemma abortFinal_setupDocker: "abortFinal w (setupDocker env cfg w)"
  unfolding setupDocker_def
  by (intro abortFinal_intros abortFinal_checkDocker abortFinal_ensureImage
      abortFinal_setupContainer)

lemma abortFinal_autoconfigArtifacts: "abortFinal w (autoconfigArtifacts cfg fs w)"
proof (induction fs arbitrary: w)
  case Nil
  show ?case by (simp add: abortFinal_returns)
next
  case (Cons f fs)
  obtain key func where f: "f = (key, func)" by (cases f)
  show ?case
    unfolding f autoconfigArtifacts.simps Let_def
    by (auto intro!: abortFinal_intros abortFinal_emit Cons.IH simp: abortEvent_def
        split: option.splits)
qed

lemma abortFinal_copyIncludes: "abortFinal w (copyIncludes env bp items w)"
proof (induction items arbitrary: w)
  case Nil
  show ?case by (simp add: abortFinal_returns)
next
  case (Cons item items)
  show ?case
    unfolding copyIncludes.simps
    by (rule abortFinal_seq) (auto intro!: abortFinal_intros abortFinal_fs_call Cons.IH
        simp: abortEvent_def)
qed

lemma abortFinal_installAll: "abortFinal w (installAll env cfg bp reqs w)"
proof (induction reqs arbitrary: w)
  case Nil
  show ?case by (simp add: abortFinal_returns)
next
  case (Cons req reqs)
  show ?case
    unfolding installAll.simps
    by (rule abortFinal_seq) (auto intro!: abortFinal_intros abortFinal_installRequirements
        Cons.IH)
qed

lemma abortFinal_makePackage: "abortFinal w (makePackage env cfg t w)"
  unfolding makePackage_def Let_def
  by (auto intro!: abortFinal_intros abortFinal_fs_call abortFinal_copyIncludes
      abortFinal_installAll simp: abortEvent_def
      simp del: installAll.simps copyIncludes.simps split: option.splits)

lemma abortFinal_mapMakePackage: "abortFinal w (mapMakePackage env cfg ts w)"
proof (induction ts arbitrary: w)
  case Nil
  show ?case by (simp add: abortFinal_returns)
next
  case (Cons t ts)
  show ?case
    unfolding mapMakePackage.simps
    by (intro abortFinal_intros abortFinal_makePackage Cons.IH)
qed

lemma abortFinal_beforeBody:
  "abortFinal w
     (seq (autoconfigArtifacts cfg (service_functions s)) (\<lambda>_.
      seq (emit (EnsureDirAsync (buildDir cfg))) (\<lambda>_.
      seq (setupDocker env cfg) (\<lambda>_.
      seq (returns (selectAll s)) (\<lambda>targets.
      mapMakePackage env cfg targets)))) w)"
  by (intro abortFinal_intros abortFinal_autoconfigArtifacts abortFinal_emit
      abortFinal_setupDocker abortFinal_mapMakePackage) (simp add: abortEvent_def)


text \<open>
  Claim C3. The confirmation gate continues exactly when the operator's line contains the
  letter \<open>y\<close> or \<open>Y\<close> at some position; on any other line it prints the abort message
  and raises. That error ends the whole run of the packaging hook: if the abort message
  was printed during the run, the run failed with the abort error and the message is its
  last event, so nothing was packaged after it. In general, when packaging one target
  raises, the targets after it are not packaged and the error is that of the run.
\<close>

theorem C3_gate_and_abort:
  "requestUserConfirmation env prompt yesText noText w =
     (if hasLetterY (question env (trace w) prompt)
      then (Inr (), w\<lparr>trace := trace w @ [Question prompt, ConsoleLog [yesText]]\<rparr>)
      else (Inl (errorExn ''Aborting''),
            w\<lparr>trace := trace w @ [Question prompt, ConsoleLog [noText]]\<rparr>))
   \<and> (pending w = [] \<and>
        ConsoleLog [defaultNoText]
          \<in> set (since w (snd (beforeCreateDeploymentArtifacts env cfg s w))) \<longrightarrow>
        fst (beforeCreateDeploymentArtifacts env cfg s w) = Inl (errorExn ''Aborting'') \<and>
        last (trace (snd (beforeCreateDeploymentArtifacts env cfg s w)))
          = ConsoleLog [defaultNoText])
   \<and> (\<forall>e w1. makePackage env cfg t w = (Inl e, w1) \<longrightarrow>
          mapMakePackage env cfg (t # ts) w = (Inl e, w1))"
proof -
  let ?body = "seq (autoconfigArtifacts cfg (service_functions s)) (\<lambda>_.
      seq (emit (EnsureDirAsync (buildDir cfg))) (\<lambda>_.
      seq (setupDocker env cfg) (\<lambda>_.
      seq (returns (selectAll s)) (\<lambda>targets.
      mapMakePackage env cfg targets))))"
  obtain r w' where b: "?body w = (r, w')" by (cases "?body w")
  have inv: "abortFinal w (r, w')"
    using abortFinal_beforeBody [of w cfg s env] b by simp
  have hook: "pending w = [] \<Longrightarrow> beforeCreateDeploymentArtifacts env cfg s w = (r, w')"
    using inv b by (simp add: beforeCreateDeploymentArtifacts_def settle_def abortFinal_def)
  have stop: "\<forall>e w1. makePackage env cfg t w = (Inl e, w1) \<longrightarrow>
      mapMakePackage env cfg (t # ts) w = (Inl e, w1)"
    by (simp add: seq_def)
  show ?thesis
    using inv hook stop
    by (auto simp: requestUserConfirmation_eq abortExn_def abortFinal_def abortEvent_def)
qed

subsection \<open>Example runs and manifests\<close>

lemma installer_error_text: "js_trim ''ERROR: boom'' = ''ERROR: boom''" "classify ''ERROR: boom'' = Ambiguous"
  "hasLetterY ''no'' = False" "js_trim [] = []"
  by code_simp+

lemmas example_sel = example_spawn example_question exited_sel

lemma example_exists: "existsSync (exampleEnv sp answer ex) tr p = ex p"
  "statSync (exampleEnv sp answer ex) tr p = Inr 1"
  "fsThrows (exampleEnv sp answer ex) tr ev = None"
  "pathJoin (exampleEnv sp answer ex) a b = a @ ''/'' @ b"
  "upathNormalize (exampleEnv sp answer ex) q = q"
  "cwd (exampleEnv sp answer ex) = ''/work''"
  by (simp_all add: exampleEnv_def)

lemmas run_simps = beforeCreateDeploymentArtifacts_def afterDeploy_def clean_def
  fse_remove_catch_def settle_def seq_def returns_def emit_def
  setupDocker_def checkDocker_def ensureImage_def setupContainer_def log_def
  runProcess_eq example_sel example_exists requestUserConfirmation_eq
  selectAll_def makePackage_def fs_call_def installRequirements_def orList_def
  orString_def js_str_def psArgs_def runArgs_def since_def raise_def Let_def

lemma example_abort_run:
  "ConsoleLog [defaultNoText]
     \<in> set (since start (snd (beforeCreateDeploymentArtifacts
                (exampleEnv failingPip ''no'' (\<lambda>p. True)) exampleConfig exampleSls start)))"
  by (simp add: run_simps failingPip_def installer_error_text start_def exampleSls_def exampleConfig_def
      exampleLayer_def)

lemma example_abort_stops:
  "Log (tagged ''Packaging api...'')
     \<in> set (trace (snd (beforeCreateDeploymentArtifacts
                (exampleEnv failingPip ''no'' (\<lambda>p. True)) exampleConfig exampleSls start)))
   \<and> Log (tagged ''Packaging web...'')
     \<notin> set (trace (snd (beforeCreateDeploymentArtifacts
                (exampleEnv failingPip ''no'' (\<lambda>p. True)) exampleConfig exampleSls start)))"
  by (simp add: run_simps failingPip_def installer_error_text start_def exampleSls_def exampleConfig_def
      exampleLayer_def tagged_def)

text \<open>
  C3 at a run of two targets in which the installer reports an error for the first and
  the operator answers \<open>no\<close>.
\<close>

theorem C3_gate_and_abort_witness:
  "fst (beforeCreateDeploymentArtifacts
          (exampleEnv failingPip ''no'' (\<lambda>p. True)) exampleConfig exampleSls start)
     = Inl (errorExn ''Aborting'')
   \<and> last (trace (snd (beforeCreateDeploymentArtifacts
          (exampleEnv failingPip ''no'' (\<lambda>p. True)) exampleConfig exampleSls start)))
     = ConsoleLog [defaultNoText]
   \<and> mapMakePackage (exampleEnv failingPip ''no'' (\<lambda>p. True)) exampleConfig
        (selectAll exampleSls) start
     = (Inl (errorExn ''Aborting''),
        snd (makePackage (exampleEnv failingPip ''no'' (\<lambda>p. True)) exampleConfig
               (hd (selectAll exampleSls)) start))"
proof -
  let ?E = "exampleEnv failingPip ''no'' (\<lambda>p. True)"
  let ?t = "hd (selectAll exampleSls)"
  have fails: "makePackage ?E exampleConfig ?t start
      = (Inl (errorExn ''Aborting''), snd (makePackage ?E exampleConfig ?t start))"
    by (simp add: run_simps failingPip_def installer_error_text start_def exampleSls_def
        exampleConfig_def exampleLayer_def abortExn_def)
  have targets: "selectAll exampleSls = ?t # tl (selectAll exampleSls)"
    by (simp add: selectAll_def exampleSls_def)
  from C3_gate_and_abort [of ?E "[]" "[]" "[]" start exampleConfig exampleSls ?t
      "tl (selectAll exampleSls)"] example_abort_run fails
  have "fst (beforeCreateDeploymentArtifacts ?E exampleConfig exampleSls start)
      = Inl (errorExn ''Aborting'')"
    and "last (trace (snd (beforeCreateDeploymentArtifacts ?E exampleConfig exampleSls start)))
      = ConsoleLog [defaultNoText]"
    and "mapMakePackage ?E exampleConfig (?t # tl (selectAll exampleSls)) start
      = (Inl (errorExn ''Aborting''), snd (makePackage ?E exampleConfig ?t start))"
    by (simp_all add: start_def)
  with targets show ?thesis by simp
qed

lemma spawns_simps:
  "spawns [] = []"
  "spawns (xs @ ys) = spawns xs @ spawns ys"
  "spawns (e # xs) = spawned e @ spawns xs"
  by (simp_all add: spawns_def)

lemma runProcess_trace:
  assumes "runProcess env cmd args w = (r, w')"
  shows "pending w' = pending w \<and>
         (\<exists>rest. trace w' = trace w @ Spawn cmd args # rest \<and> spawns rest = [])"
  using assms
  by (auto simp: runProcess_eq Let_def seq_def requestUserConfirmation_eq returns_def
      spawns_simps split: option.splits classification.splits if_splits)

text \<open>
  Claim C5. \<open>installRequirements\<close> on a manifest path that does not exist changes
  nothing; on a manifest of size zero it logs a warning and launches nothing; on a
  manifest of positive size it launches exactly one process, the installer inside the
  container.
\<close>

theorem C5_manifest_handling:
  "(\<not> existsSync env (trace w) p \<longrightarrow>
      installRequirements env cfg bp p w = (Inr None, w))
   \<and> (existsSync env (trace w) p \<and> statSync env (trace w) p = Inr 0 \<longrightarrow>
      installRequirements env cfg bp p w =
        (Inr None,
         w\<lparr>trace := trace w @
              [Log (tagged (''WARNING: requirements file at '' @ p @ '' is empty. Skiping.''))]\<rparr>))
   \<and> (existsSync env (trace w) p \<and> statSync env (trace w) p = Inr (Suc n) \<longrightarrow>
      spawns (since w (snd (installRequirements env cfg bp p w))) =
        [(''docker'', [''exec'', containerName cfg, ''pip'', ''install'', ''--upgrade'', ''-t'',
                      upathNormalize env bp, ''-r'',
                      upathNormalize env (''/var/task/'' @ p)])])"
proof -
  let ?args = "[''exec'', containerName cfg, ''pip'', ''install'', ''--upgrade'', ''-t'',
                upathNormalize env bp, ''-r'', upathNormalize env (''/var/task/'' @ p)]"
  obtain r w' where run: "runProcess env ''docker'' ?args w = (r, w')"
    by (cases "runProcess env ''docker'' ?args w")
  from runProcess_trace [OF run] have "spawns (since w w') = [(''docker'', ?args)]"
    by (auto simp: since_def spawns_simps)
  moreover have "existsSync env (trace w) p \<and> statSync env (trace w) p = Inr (Suc n) \<Longrightarrow>
      snd (installRequirements env cfg bp p w) = w'"
    using run
    by (simp add: installRequirements_def dockerServicePath_def seq_def returns_def
        split: sum.splits)
  ultimately show ?thesis
    by (simp add: installRequirements_def returns_def seq_def log_def emit_def)
qed

text \<open>C5 at a missing manifest, at an empty one and at a non-empty one.\<close>

theorem C5_manifest_handling_witness:
  "installRequirements (exampleEnv quiet [] (\<lambda>p. False)) exampleConfig
      ''./build/api'' ''./build/api/requirements.txt'' start = (Inr None, start)
   \<and> installRequirements ((exampleEnv quiet [] (\<lambda>p. True))\<lparr>statSync := \<lambda>tr p. Inr 0\<rparr>)
      exampleConfig ''./build/api'' ''r.txt'' start
       = (Inr None, \<lparr>trace = [Log (tagged
            ''WARNING: requirements file at r.txt is empty. Skiping.'')], pending = []\<rparr>)
   \<and> spawns (since start (snd (installRequirements (exampleEnv quiet [] (\<lambda>p. True))
        exampleConfig ''./build/api'' ''r.txt'' start)))
       = [(''docker'', [''exec'', ''depLayerPkg'', ''pip'', ''install'', ''--upgrade'', ''-t'',
                       ''./build/api'', ''-r'', ''/var/task/r.txt''])]"
  using C5_manifest_handling [of "exampleEnv quiet [] (\<lambda>p. False)" start
        "''./build/api/requirements.txt''" exampleConfig "''./build/api''" 0]
    C5_manifest_handling [of "(exampleEnv quiet [] (\<lambda>p. True))\<lparr>statSync := \<lambda>tr p. Inr 0\<rparr>"
        start "''r.txt''" exampleConfig "''./build/api''" 0]
    C5_manifest_handling [of "exampleEnv quiet [] (\<lambda>p. True)" start "''r.txt''" exampleConfig
        "''./build/api''" 0]
  by (simp add: example_exists exampleEnv_def start_def exampleConfig_def)

subsection \<open>Configuration and the container\<close>

text \<open>
  Claim C9. \<open>getPluginConfig\<close> fails exactly when the configuration supplies no
  \<open>buildDir\<close> or an empty one, with the error \<open>No buildDir configuration specified\<close>
  whenever the \<open>custom\<close> section exists; and when it succeeds, the resolved
  \<open>buildDir\<close> is the supplied one and is not empty.
\<close>

theorem C9_buildDir_required:
  "((\<exists>e. getPluginConfig s = Inl e) \<longleftrightarrow>
      suppliedBuildDir s = None \<or> suppliedBuildDir s = Some [])
   \<and> (service_custom s \<noteq> None \<and> (suppliedBuildDir s = None \<or> suppliedBuildDir s = Some [])
        \<longrightarrow> getPluginConfig s = Inl (errorExn ''No buildDir configuration specified''))
   \<and> (\<forall>cfg. getPluginConfig s = Inr cfg \<longrightarrow>
         buildDir cfg \<noteq> [] \<and> suppliedBuildDir s = Some (buildDir cfg))"
  by (auto simp: getPluginConfig_def suppliedBuildDir_def orString_def emptyConfig_def Let_def
      split: option.splits if_splits)

text \<open>C9 at a configuration with \<open>buildDir: ./build\<close> and at one without the plugin's section.\<close>

theorem C9_buildDir_required_witness:
  "(\<exists>cfg. getPluginConfig exampleSls = Inr cfg \<and> buildDir cfg = ''./build'')
   \<and> getPluginConfig (exampleSls\<lparr>service_custom := Some None\<rparr>)
       = Inl (errorExn ''No buildDir configuration specified'')"
  using C9_buildDir_required [of exampleSls]
    C9_buildDir_required [of "exampleSls\<lparr>service_custom := Some None\<rparr>"]
  by (auto simp: suppliedBuildDir_def exampleSls_def emptyConfig_def getPluginConfig_def
      orString_def)




subsection \<open>Container runs, and the unused option\<close>









lemma unused_flag_installRequirements:
  "installRequirements env (cfg\<lparr>abortOnPackagingErrors := b\<rparr>) = installRequirements env cfg"
  by (intro ext) (simp add: installRequirements_def Let_def cong: sum.case_cong if_cong)

lemma unused_flag_installAll:
  "installAll env (cfg\<lparr>abortOnPackagingErrors := b\<rparr>) bp reqs = installAll env cfg bp reqs"
  by (induction reqs) (simp_all add: unused_flag_installRequirements cong: if_cong)

lemma unused_flag_autoconfigArtifacts:
  "autoconfigArtifacts (cfg\<lparr>abortOnPackagingErrors := b\<rparr>) fs = autoconfigArtifacts cfg fs"
  by (induction fs) (auto split: option.splits)

lemma unused_flag_makePackage:
  "makePackage env (cfg\<lparr>abortOnPackagingErrors := b\<rparr>) = makePackage env cfg"
  by (intro ext) (simp add: makePackage_def Let_def unused_flag_installAll
      del: installAll.simps copyIncludes.simps cong: option.case_cong)

lemma unused_flag_mapMakePackage:
  "mapMakePackage env (cfg\<lparr>abortOnPackagingErrors := b\<rparr>) ts = mapMakePackage env cfg ts"
  by (induction ts) (simp_all add: unused_flag_makePackage)

lemma unused_flag_setupDocker:
  "setupDocker env (cfg\<lparr>abortOnPackagingErrors := b\<rparr>) = setupDocker env cfg"
  by (simp add: setupDocker_def ensureImage_def setupContainer_def psArgs_def runArgs_def
      Let_def cong: if_cong)

lemma unused_flag_clean:
  "clean env (cfg\<lparr>abortOnPackagingErrors := b\<rparr>) = clean env cfg"
  by (simp add: clean_def cong: if_cong)

lemma orBool_True: "orBool y True = True"
  by (simp add: orBool_def split: option.splits)

text \<open>
  Claim C10. Two configurations that differ only in \<open>abortOnPackagingErrors\<close> resolve
  to the same configuration, in which the option is \<open>true\<close> whatever was supplied; and
  neither hook of the plugin reads the option: changing it in a resolved configuration
  changes nothing of what the packaging hook or the cleanup hook does.
\<close>

theorem C10_abortOnPackagingErrors_unused:
  "getPluginConfig (s\<lparr>service_custom := Some (Some (r\<lparr>raw_abortOnPackagingErrors := x\<rparr>))\<rparr>)
     = getPluginConfig (s\<lparr>service_custom := Some (Some r)\<rparr>)
   \<and> (\<forall>cfg. getPluginConfig (s\<lparr>service_custom := Some (Some r)\<rparr>) = Inr cfg
         \<longrightarrow> abortOnPackagingErrors cfg = True)
   \<and> beforeCreateDeploymentArtifacts env (cfg\<lparr>abortOnPackagingErrors := b\<rparr>)
       = beforeCreateDeploymentArtifacts env cfg
   \<and> afterDeploy env (cfg\<lparr>abortOnPackagingErrors := b\<rparr>) = afterDeploy env cfg"
proof -
  have "getPluginConfig (s\<lparr>service_custom := Some (Some (r\<lparr>raw_abortOnPackagingErrors := x\<rparr>))\<rparr>)
     = getPluginConfig (s\<lparr>service_custom := Some (Some r)\<rparr>)"
    by (simp add: getPluginConfig_def orBool_True Let_def)
  moreover have "\<forall>cfg. getPluginConfig (s\<lparr>service_custom := Some (Some r)\<rparr>) = Inr cfg
         \<longrightarrow> abortOnPackagingErrors cfg = True"
    by (auto simp: getPluginConfig_def orBool_True Let_def split: if_splits)
  moreover have "beforeCreateDeploymentArtifacts env (cfg\<lparr>abortOnPackagingErrors := b\<rparr>)
       = beforeCreateDeploymentArtifacts env cfg"
    by (intro ext) (simp add: beforeCreateDeploymentArtifacts_def unused_flag_setupDocker
        unused_flag_autoconfigArtifacts unused_flag_mapMakePackage)
  moreover have "afterDeploy env (cfg\<lparr>abortOnPackagingErrors := b\<rparr>) = afterDeploy env cfg"
    by (simp add: afterDeploy_def unused_flag_clean)
  ultimately show ?thesis by blast
qed

text \<open>C10 at a configuration that sets the option to \<open>false\<close>.\<close>

theorem C10_abortOnPackagingErrors_unused_witness:
  "getPluginConfig (exampleSls\<lparr>service_custom :=
       Some (Some (emptyConfig\<lparr>raw_buildDir := Some ''./build'',
                               raw_abortOnPackagingErrors := Some False\<rparr>))\<rparr>)
     = getPluginConfig exampleSls
   \<and> (\<exists>cfg. getPluginConfig exampleSls = Inr cfg \<and> abortOnPackagingErrors cfg = True)"
  using C10_abortOnPackagingErrors_unused [where s = exampleSls
      and r = "emptyConfig\<lparr>raw_buildDir := Some ''./build''\<rparr>" and x = "Some False"]
  by (auto simp: exampleSls_def getPluginConfig_def orString_def emptyConfig_def)

subsection \<open>Cleanup\<close>

lemma runProcess_pending:
  "runProcess env cmd args (w\<lparr>pending := p\<rparr>) =
     (case runProcess env cmd args w of (r, w') \<Rightarrow> (r, w'\<lparr>pending := p\<rparr>))"
  by (simp add: runProcess_eq Let_def seq_def requestUserConfirmation_eq returns_def
      split: option.splits classification.splits)

lemma runProcess_removeRejects:
  "runProcess (env\<lparr>removeRejects := f\<rparr>) cmd args w = runProcess env cmd args w"
  by (simp add: runProcess_eq Let_def seq_def requestUserConfirmation_eq returns_def
      split: option.splits classification.splits)

lemma container_gone_text:
  "js_trim ''Error response from daemon: No such container: depLayerPkg''
     = ''Error response from daemon: No such container: depLayerPkg''"
  "classify ''Error response from daemon: No such container: depLayerPkg'' = Ambiguous"
  by code_simp+

text \<open>
  Against claim C6 as stated: with cleanup enabled and a \<open>docker\<close> that cannot be
  launched, \<open>clean\<close> does not return; it raises the launch error of the stop command.
  And when the container is already gone, the diagnostic of the stop command goes to the
  confirmation gate, and an operator who declines makes \<open>clean\<close> raise the abort
  error.
\<close>

theorem C6_stop_failure_propagates:
  "cleanup exampleConfig = Some True
   \<and> fst (clean (exampleEnv dockerMissing [] (\<lambda>p. True)) exampleConfig start)
       = Inl (SlsError (tagged ''spawnSync docker ENOENT''))
   \<and> fst (clean (exampleEnv containerGone ''n'' (\<lambda>p. True)) exampleConfig start)
       = Inl (errorExn ''Aborting'')"
proof -
  have "hasLetterY ''n'' = False"
    by code_simp
  then show ?thesis
    by (simp add: run_simps dockerMissing_def notLaunched_def containerGone_def exited_def
        container_gone_text abortExn_def exampleConfig_def start_def)
qed

text \<open>
  Claim C6, amended. With cleanup enabled, a failure of the removal of the build directory
  is only logged, by the handler of its promise: it changes neither the result nor the
  events of \<open>clean\<close>, and queues one log line. The container is stopped through
  \<open>runProcess\<close>: \<open>clean\<close> returns \<open>true\<close> when that call returns, and raises
  what that call raises.
\<close>

theorem C6_cleanup_failures:
  assumes "cleanup cfg = Some True"
  shows "fst (clean env cfg w) =
     (case fst (runProcess env ''docker'' [''stop'', containerName cfg, ''-t'', ''0'']
                 (w\<lparr>trace := trace w @ [Log (tagged ''Cleaning build directory...''),
                        Remove (buildDir cfg), Log (tagged ''Removing Docker container...'')]\<rparr>)) of
        Inl e \<Rightarrow> Inl e
      | Inr out \<Rightarrow> Inr True)
    \<and> fst (clean (env\<lparr>removeRejects := f\<rparr>) cfg w) = fst (clean env cfg w)
    \<and> trace (snd (clean (env\<lparr>removeRejects := f\<rparr>) cfg w)) = trace (snd (clean env cfg w))
    \<and> pending (snd (clean env cfg w)) =
        pending w @
        (case removeRejects env (trace w @ [Log (tagged ''Cleaning build directory...'')])
                (buildDir cfg) of
           None \<Rightarrow> []
         | Some err \<Rightarrow> [Log (tagged err)])"
proof -
  let ?stop = "[''stop'', containerName cfg, ''-t'', ''0'']"
  let ?tr = "trace w @ [Log (tagged ''Cleaning build directory...''),
               Remove (buildDir cfg), Log (tagged ''Removing Docker container...'')]"
  have shape: "clean E cfg w =
      seq (runProcess E ''docker'' ?stop) (\<lambda>_. returns True)
        (w\<lparr>trace := ?tr,
           pending := pending w @
             (case removeRejects E (trace w @ [Log (tagged ''Cleaning build directory...'')])
                     (buildDir cfg) of
                None \<Rightarrow> []
              | Some err \<Rightarrow> [Log (tagged err)])\<rparr>)" for E
  proof -
    have swap: "v\<lparr>pending := p, trace := t\<rparr> = v\<lparr>trace := t, pending := p\<rparr>"
      for v :: world and p t
      by (cases v) simp
    show ?thesis
      using assms
      by (simp add: clean_def seq_def log_def emit_def fse_remove_catch_def swap)
  qed
  obtain r w' where run: "runProcess env ''docker'' ?stop (w\<lparr>trace := ?tr\<rparr>) = (r, w')"
    by (cases "runProcess env ''docker'' ?stop (w\<lparr>trace := ?tr\<rparr>)")
  have moved: "runProcess env ''docker'' ?stop (w\<lparr>trace := ?tr, pending := p\<rparr>)
      = (r, w'\<lparr>pending := p\<rparr>)" for p
    using runProcess_pending [where env = env and cmd = "''docker''" and args = ?stop
        and w = "w\<lparr>trace := ?tr\<rparr>" and p = p] run by simp
  show ?thesis
    unfolding shape
    by (cases r) (simp_all add: seq_def returns_def moved run runProcess_removeRejects)
qed

text \<open>C6 at a removal that is rejected and a stop command that succeeds.\<close>

theorem C6_cleanup_failures_witness:
  "afterDeploy ((exampleEnv quiet [] (\<lambda>p. True))\<lparr>removeRejects := \<lambda>tr p. Some ''EPERM''\<rparr>)
      exampleConfig start
    = (Inr True,
       \<lparr>trace = [Log (tagged ''Cleaning build directory...''), Remove ''./build'',
                 Log (tagged ''Removing Docker container...''),
                 Spawn ''docker'' [''stop'', ''depLayerPkg'', ''-t'', ''0''],
                 Log (tagged ''EPERM'')],
        pending = []\<rparr>)"
proof -
  let ?E = "(exampleEnv quiet [] (\<lambda>p. True))\<lparr>removeRejects := \<lambda>tr p. Some ''EPERM''\<rparr>"
  have c: "cleanup exampleConfig = Some True"
    by (simp add: exampleConfig_def)
  have stop: "runProcess ?E ''docker'' [''stop'', ''depLayerPkg'', ''-t'', ''0''] w
      = (Inr [], w\<lparr>trace := trace w @ [Spawn ''docker'' [''stop'', ''depLayerPkg'', ''-t'', ''0'']]\<rparr>)"
    for w
    by (simp add: runProcess_eq exampleEnv_def quiet_def exited_def)
  from C6_cleanup_failures [OF c, of ?E start "\<lambda>tr p. None"]
  have "fst (clean ?E exampleConfig start) = Inr True"
    and "pending (snd (clean ?E exampleConfig start)) = [Log (tagged ''EPERM'')]"
    by (simp_all add: stop exampleConfig_def start_def)
  moreover have "trace (snd (clean ?E exampleConfig start))
      = [Log (tagged ''Cleaning build directory...''), Remove ''./build'',
         Log (tagged ''Removing Docker container...''),
         Spawn ''docker'' [''stop'', ''depLayerPkg'', ''-t'', ''0'']]"
    by (simp add: clean_def seq_def log_def emit_def fse_remove_catch_def stop returns_def
        exampleConfig_def start_def)
  ultimately show ?thesis
    by (cases "clean ?E exampleConfig start") (simp add: afterDeploy_def settle_def)
qed

subsection \<open>Include paths\<close>














end
